theory Spec2Isabelle
  imports Main "HOL-Library.Word" "HOL-Library.Sublist"
begin

text \<open>
  A model of the side panel's script \<open>panel.js\<close> (the part from \<open>const CONFIG\<close> on): file
  validation and text extraction, fetching a URL, the source store, the verification
  request and the display of its result.

  Each asynchronous function is modelled as run to completion, one handler at a time. What
  the script takes from the browser and its libraries is a parameter (the record \<open>env\<close>);
  what it changes is the record \<open>page\<close>. Of the markup \<open>updateFileList\<close> renders, the
  remove buttons are modelled, as a function of the store. Console logging, the rest of
  that markup, the timer that hides the result box and the pending claim read from extension
  storage are left out: none of them writes to \<open>appState\<close>.
\<close>

section \<open>JavaScript strings\<close>

text \<open>
  A JavaScript string is a sequence of UTF-16 code units; \<open>length\<close>, \<open>substring\<close>,
  \<open>includes\<close>, \<open>startsWith\<close> and \<open>endsWith\<close> all count and compare code units.
  String literals of the source are written \<open>lit ''...''\<close>.
\<close>

type_synonym jsstring = "16 word list"

definition lit :: "string \<Rightarrow> jsstring" where
  "lit s = map of_char s"

text \<open>\<open>String.prototype.substring(0, n)\<close> for a non-negative integer \<open>n\<close>.\<close>

definition substring0 :: "nat \<Rightarrow> jsstring \<Rightarrow> jsstring" where
  "substring0 n s = take n s"

text \<open>\<open>Array.prototype.join(sep)\<close> on an array of strings.\<close>

fun join :: "jsstring \<Rightarrow> jsstring list \<Rightarrow> jsstring" where
  "join sep [] = []"
| "join sep [x] = x"
| "join sep (x # y # ys) = x @ sep @ join sep (y # ys)"

definition startsWith :: "jsstring \<Rightarrow> jsstring \<Rightarrow> bool" where
  "startsWith s p = (take (length p) s = p)"

definition endsWith :: "jsstring \<Rightarrow> jsstring \<Rightarrow> bool" where
  "endsWith s p = (length p \<le> length s \<and> drop (length s - length p) s = p)"

text \<open>\<open>String.prototype.includes\<close>: the argument occurs as a contiguous run of code units.\<close>

fun includes_js :: "jsstring \<Rightarrow> jsstring \<Rightarrow> bool" where
  "includes_js [] p = (p = [])"
| "includes_js (c # s) p = (startsWith (c # s) p \<or> includes_js s p)"

text \<open>
  \<open>String.prototype.trim\<close> strips the code units ECMAScript calls WhiteSpace or
  LineTerminator from both ends.
\<close>

definition isWhiteSpace :: "16 word \<Rightarrow> bool" where
  "isWhiteSpace c =
     (c \<in> {0x0009, 0x000A, 0x000B, 0x000C, 0x000D, 0x0020, 0x00A0, 0x1680,
            0x2028, 0x2029, 0x202F, 0x205F, 0x3000, 0xFEFF}
      \<or> (0x2000 \<le> c \<and> c \<le> 0x200A))"

definition trim :: "jsstring \<Rightarrow> jsstring" where
  "trim s = rev (dropWhile isWhiteSpace (rev (dropWhile isWhiteSpace s)))"

text \<open>Lower-casing of the ASCII letters, the case folding of a regular expression's \<open>i\<close> flag
  on an ASCII pattern.\<close>

definition asciiLower :: "16 word \<Rightarrow> 16 word" where
  "asciiLower c = (if 0x41 \<le> c \<and> c \<le> 0x5A then c + 0x20 else c)"

text \<open>The decimal rendering of a non-negative integer inside a template literal.\<close>

fun decimal :: "nat \<Rightarrow> jsstring" where
  "decimal n =
     (if n < 10 then [of_nat (48 + n)]
      else decimal (n div 10) @ [of_nat (48 + n mod 10)])"

declare decimal.simps [simp del]

section \<open>JavaScript numbers used as indices\<close>

text \<open>
  The numbers the removal code computes with are integers or \<open>NaN\<close>, the result of
  \<open>parseInt\<close> on a string without digits. Integers are kept exact; a double agrees with
  them on every index within reach of an array.
\<close>

datatype jsnumber = JSInt int | JSNaN

text \<open>The subtraction \<open>index - length\<close>: \<open>NaN\<close> stays \<open>NaN\<close>.\<close>

fun number_minus :: "jsnumber \<Rightarrow> int \<Rightarrow> jsnumber" where
  "number_minus (JSInt i) n = JSInt (i - n)"
| "number_minus JSNaN n = JSNaN"

text \<open>The conversion ECMAScript applies to the first argument of \<open>splice\<close>: \<open>NaN\<close>
  becomes 0.\<close>

fun ToIntegerOrInfinity :: "jsnumber \<Rightarrow> int" where
  "ToIntegerOrInfinity (JSInt i) = i"
| "ToIntegerOrInfinity JSNaN = 0"

text \<open>
  \<open>Array.prototype.splice(start, 1)\<close>: a negative start counts from the end, the start is
  clamped to the array, and at most one element is deleted.
\<close>

definition splice_at :: "jsnumber \<Rightarrow> 'a list \<Rightarrow> 'a list" where
  "splice_at start xs =
     (let len = int (length xs);
          relativeStart = ToIntegerOrInfinity start;
          actualStart = (if relativeStart < 0 then max (len + relativeStart) 0
                         else min relativeStart len)
      in take (nat actualStart) xs @ drop (nat actualStart + 1) xs)"

text \<open>The value of a digit or letter as a digit of a numeral, before the radix is looked
  at.\<close>

definition digitValue :: "16 word \<Rightarrow> nat option" where
  "digitValue c =
     (if 0x30 \<le> c \<and> c \<le> 0x39 then Some (unat c - 48)
      else if 0x61 \<le> c \<and> c \<le> 0x7A then Some (unat c - 87)
      else if 0x41 \<le> c \<and> c \<le> 0x5A then Some (unat c - 55)
      else None)"

definition isRadixDigit :: "nat \<Rightarrow> 16 word \<Rightarrow> bool" where
  "isRadixDigit R c = (case digitValue c of Some d \<Rightarrow> d < R | None \<Rightarrow> False)"

text \<open>
  \<open>parseInt(string)\<close> with no radix, on a string or on \<open>undefined\<close> (\<open>None\<close>), which is
  first converted to the string \<open>undefined\<close>: leading white space is dropped, a sign is
  read, a prefix \<open>0x\<close> or \<open>0X\<close> selects radix 16, and the longest run of digits is the
  value; with no digit the result is \<open>NaN\<close>.
\<close>

definition parseInt :: "jsstring option \<Rightarrow> jsnumber" where
  "parseInt string =
     (let inputString = (case string of None \<Rightarrow> lit ''undefined'' | Some str \<Rightarrow> str);
          S0 = dropWhile isWhiteSpace inputString;
          sign = (if take 1 S0 = lit ''-'' then - 1 else (1 :: int));
          S1 = (if take 1 S0 = lit ''+'' \<or> take 1 S0 = lit ''-'' then drop 1 S0 else S0);
          hex = (take 2 S1 = lit ''0x'' \<or> take 2 S1 = lit ''0X'');
          R = (if hex then 16 else 10);
          S2 = (if hex then drop 2 S1 else S1);
          Z = takeWhile (isRadixDigit R) S2
      in if Z = [] then JSNaN
         else JSInt (sign * int (foldl (\<lambda>a c. a * R + (case digitValue c of
                                                            Some d \<Rightarrow> d
                                                          | None \<Rightarrow> 0)) 0 Z)))"

section \<open>Errors\<close>

text \<open>
  Every \<open>throw\<close> of the source throws \<open>new Error(message)\<close>; a rejected promise and a
  thrown exception are both the left injection of \<open>error + 'a\<close>. The named errors below
  are the messages of the source's throw sites.
\<close>

datatype error = Error (message: jsstring)

definition FileTooLarge :: "jsstring \<Rightarrow> error" where
  "FileTooLarge nm = Error (lit ''File '' @ [0x22] @ nm @ [0x22] @ lit '' exceeds 10MB limit'')"

definition UnsupportedType :: "jsstring \<Rightarrow> error" where
  "UnsupportedType nm = Error (lit ''File type not supported: '' @ nm)"

definition ReadFailed :: "jsstring \<Rightarrow> error" where
  "ReadFailed nm = Error (lit ''Failed to read file: '' @ nm)"

definition InvalidUrl :: error where
  "InvalidUrl = Error (lit ''Invalid URL format. Please use http:// or https://'')"

definition FetchFailed :: "nat \<Rightarrow> jsstring \<Rightarrow> error" where
  "FetchFailed st txt = Error (lit ''Failed to fetch URL: '' @ decimal st @ lit '' '' @ txt)"

definition EmptyClaim :: error where
  "EmptyClaim = Error (lit ''Please enter a claim to verify'')"

definition NoSources :: error where
  "NoSources =
     Error (lit ''Please add at least one source (file or URL) before verifying'')"

section \<open>Data model\<close>

text \<open>A \<open>File\<close> handle as the code reads it: \<open>file.name\<close>, \<open>file.type\<close>, \<open>file.size\<close>.\<close>

record jsfile =
  file_name :: jsstring
  file_type :: jsstring
  file_size :: nat

text \<open>
  The two shapes of object kept in the store: the object \<open>processFile\<close> returns
  (\<open>name\<close>, \<open>type\<close>, \<open>size\<close>, \<open>content\<close>, \<open>timestamp\<close>) and the object
  \<open>fetchUrlContent\<close> returns (\<open>url\<close>, \<open>content\<close>, \<open>title\<close>, \<open>timestamp\<close>).
\<close>

datatype source =
    FileSource (src_name: jsstring) (src_type: jsstring) (src_size: nat)
               (content: jsstring) (timestamp: jsstring)
  | UrlSource (url: jsstring) (content: jsstring) (title: jsstring) (timestamp: jsstring)

text \<open>The response of a \<open>fetch\<close>; \<open>ok\<close> is true for a status from 200 to 299.\<close>

record response =
  status :: nat
  statusText :: jsstring
  text_body :: "error + jsstring"

definition ok :: "response \<Rightarrow> bool" where
  "ok r = (200 \<le> status r \<and> status r \<le> 299)"

text \<open>The request posted to the judge: the fields of the JSON body and the bearer token.\<close>

record judge_request =
  authorization :: jsstring
  model :: jsstring
  system_content :: jsstring
  user_content :: jsstring
  temperature :: jsstring
  max_tokens :: nat

text \<open>
  The judge's response as the code reads it: the status, \<open>error.message\<close> of the parsed body
  when there is one, and \<open>choices[0].message.content\<close> of the parsed body (reading it throws
  when the body has no such path).
\<close>

record judge_response =
  judge_status :: nat
  error_message :: "jsstring option"
  choice_content :: "error + jsstring"

datatype net_call = HttpGet jsstring | JudgePost judge_request

text \<open>
  Everything the page takes from its platform: the libraries that may or may not be loaded
  (\<open>None\<close> is an absent library), the file reader, the URL parser, the network, the
  HTML parser with Readability, the clock and the configured key.
\<close>

record env =
  toLowerCase :: "jsstring \<Rightarrow> jsstring"
  pdfjsLib :: "(jsfile \<Rightarrow> error + jsstring list list) option"
  mammoth :: "(jsfile \<Rightarrow> error + jsstring) option"
  Tesseract :: "(jsfile \<Rightarrow> error + jsstring) option"
  readAsText :: "jsfile \<Rightarrow> jsstring option"
  URL_protocol :: "jsstring \<Rightarrow> jsstring option"
  fetch_get :: "jsstring \<Rightarrow> error + response"
  readability_parse :: "jsstring \<Rightarrow> error + jsstring option"
  body_innerText :: "jsstring \<Rightarrow> jsstring"
  doc_title :: "jsstring \<Rightarrow> jsstring"
  fetch_judge :: "judge_request \<Rightarrow> error + judge_response"
  toISOString :: "nat \<Rightarrow> jsstring"
  OPENAI_API_KEY :: jsstring

text \<open>The global \<open>appState\<close> object.\<close>

record appState =
  uploadedFiles :: "source list"
  urlSources :: "source list"
  pendingClaim :: "jsstring option"
  sourceContents :: "source list"

text \<open>
  The page: \<open>appState\<close>, the form fields and result box the handlers read and write, the
  network requests issued so far (oldest first) and the number of clock readings taken.
\<close>

record page = appState +
  claimBox :: jsstring
  sourceUrl :: jsstring
  resultBox_className :: jsstring
  resultContent_innerHTML :: jsstring
  netLog :: "net_call list"
  clock :: nat

section \<open>File validation and text extraction\<close>

definition MAX_FILE_SIZE :: nat where
  "MAX_FILE_SIZE = 10 * 1024 * 1024"

definition ALLOWED_TYPES :: "(jsstring \<times> jsstring list) list" where
  "ALLOWED_TYPES =
     [(lit ''application/pdf'', [lit ''.pdf'']),
      (lit ''application/msword'', [lit ''.doc'']),
      (lit ''application/vnd.openxmlformats-officedocument.wordprocessingml.document'',
         [lit ''.docx'']),
      (lit ''text/plain'', [lit ''.txt'']),
      (lit ''image/jpeg'', [lit ''.jpg'', lit ''.jpeg'']),
      (lit ''image/png'', [lit ''.png'']),
      (lit ''image/gif'', [lit ''.gif''])]"

text \<open>\<open>validateFile\<close>: the size check comes first, then the type check; it returns \<open>true\<close>
  or throws.\<close>

definition validateFile :: "env \<Rightarrow> jsfile \<Rightarrow> error + bool" where
  "validateFile e f =
     (if file_size f > MAX_FILE_SIZE then Inl (FileTooLarge (file_name f))
      else
        let isValidType =
              (file_type f \<in> set (map fst ALLOWED_TYPES)
               \<or> list_ex (\<lambda>ext. endsWith (toLowerCase e (file_name f)) ext)
                    (concat (map snd ALLOWED_TYPES)))
        in if \<not> isValidType then Inl (UnsupportedType (file_name f)) else Inr True)"

text \<open>\<open>readFileAsText\<close>: the promise resolves with the reader's text on \<open>onload\<close> and is
  rejected on \<open>onerror\<close>.\<close>

definition readFileAsText :: "env \<Rightarrow> jsfile \<Rightarrow> error + jsstring" where
  "readFileAsText e f =
     (case readAsText e f of
        Some t \<Rightarrow> Inr t
      | None \<Rightarrow> Inl (ReadFailed (file_name f)))"

text \<open>
  \<open>extractTextFromPDF\<close>. The library, when loaded, yields for each page the \<open>str\<close> of its
  text items, or throws somewhere on the way (reading the buffer, opening the document,
  getting a page). Whatever is thrown inside the \<open>try\<close>, the rejection of the first raw
  read included, lands in the \<open>catch\<close>, which reads the file as text.
\<close>

definition extractTextFromPDF :: "env \<Rightarrow> jsfile \<Rightarrow> error + jsstring" where
  "extractTextFromPDF e f =
     (case (case pdfjsLib e of
              None \<Rightarrow> readFileAsText e f
            | Some getDocument \<Rightarrow>
                (case getDocument f of
                   Inl err \<Rightarrow> Inl err
                 | Inr pages \<Rightarrow>
                     Inr (trim (concat (map (\<lambda>items. join (lit '' '') items
                                                @ lit ''\<newline>\<newline>'') pages))))) of
        Inr fullText \<Rightarrow> Inr fullText
      | Inl err \<Rightarrow> readFileAsText e f)"

text \<open>\<open>extractTextFromWord\<close>, of the same shape.\<close>

definition extractTextFromWord :: "env \<Rightarrow> jsfile \<Rightarrow> error + jsstring" where
  "extractTextFromWord e f =
     (case (case mammoth e of
              None \<Rightarrow> readFileAsText e f
            | Some extractRawText \<Rightarrow>
                (case extractRawText f of
                   Inl err \<Rightarrow> Inl err
                 | Inr v \<Rightarrow> Inr v)) of
        Inr v \<Rightarrow> Inr v
      | Inl err \<Rightarrow> readFileAsText e f)"

text \<open>\<open>extractTextFromImage\<close>: every path of the \<open>try\<close> and the \<open>catch\<close> returns a string.\<close>

definition extractTextFromImage :: "env \<Rightarrow> jsfile \<Rightarrow> jsstring" where
  "extractTextFromImage e f =
     (case Tesseract e of
        None \<Rightarrow>
          lit ''[Image: '' @ file_name f
            @ lit '']\<newline>OCR library not loaded. Please install Tesseract.js to extract text from images.''
      | Some recognize \<Rightarrow>
          (case recognize f of
             Inl err \<Rightarrow>
               lit ''[Image: '' @ file_name f @ lit '']\<newline>Failed to extract text from image.''
           | Inr t \<Rightarrow>
               (if trim t \<noteq> [] then trim t
                else lit ''[Image: '' @ file_name f @ lit '']\<newline>No text detected in image.'')))"

text \<open>The test \<open>file.name.match(/\.(doc|docx)$/i)\<close>.\<close>

definition matches_doc :: "jsstring \<Rightarrow> bool" where
  "matches_doc nm =
     (endsWith (map asciiLower nm) (lit ''.doc'') \<or> endsWith (map asciiLower nm) (lit ''.docx''))"

text \<open>
  \<open>processFile\<close>: validate, dispatch on the declared type and the name, build the source
  object with the time of its creation. An error of validation or extraction is logged
  and thrown again.
\<close>

definition processFile :: "env \<Rightarrow> jsfile \<Rightarrow> page \<Rightarrow> (error + source) \<times> page" where
  "processFile e f w =
     (case validateFile e f of
        Inl err \<Rightarrow> (Inl err, w)
      | Inr _ \<Rightarrow>
          (case (if file_type f = lit ''application/pdf''
                    \<or> endsWith (toLowerCase e (file_name f)) (lit ''.pdf'')
                 then extractTextFromPDF e f
                 else if file_type f = lit ''application/msword''
                    \<or> file_type f =
                        lit ''application/vnd.openxmlformats-officedocument.wordprocessingml.document''
                    \<or> matches_doc (file_name f)
                 then extractTextFromWord e f
                 else if startsWith (file_type f) (lit ''image/'')
                 then Inr (extractTextFromImage e f)
                 else if file_type f = lit ''text/plain''
                    \<or> endsWith (toLowerCase e (file_name f)) (lit ''.txt'')
                 then readFileAsText e f
                 else readFileAsText e f) of
             Inl err \<Rightarrow> (Inl err, w)
           | Inr extractedText \<Rightarrow>
               (Inr (FileSource (file_name f) (file_type f) (file_size f) extractedText
                       (toISOString e (clock w))),
                w\<lparr>clock := Suc (clock w)\<rparr>)))"

section \<open>The result box\<close>

definition showStatus :: "jsstring \<Rightarrow> jsstring \<Rightarrow> page \<Rightarrow> page" where
  \<open>showStatus msg type w =
     w\<lparr>resultBox_className := lit ''result-box show '' @ type,
       resultContent_innerHTML :=
         (if type = lit ''loading''
          then lit ''\<newline>      <div class="loading-spinner">\<newline>        <div class="spinner"></div>\<newline>        <span>''
               @ msg @ lit ''</span>\<newline>      </div>\<newline>    ''
          else msg)\<rparr>\<close>

text \<open>The verdict category \<open>displayResult\<close> derives from the judge's reply.\<close>

definition resultType :: "jsstring \<Rightarrow> jsstring" where
  "resultType analysis =
     (if includes_js analysis (lit ''Contradicted'') \<or> includes_js analysis (lit ''False'')
      then lit ''invalid''
      else if includes_js analysis (lit ''Insufficient'') \<or> includes_js analysis (lit ''Partially'')
      then lit ''error''
      else lit ''valid'')"

definition result_header :: jsstring where
  \<open>result_header =
     lit ''\<newline>    <div class="result-header">\<newline>      <svg xmlns="http://www.w3.org/2000/svg" fill="none" viewBox="0 0 24 24" stroke="currentColor">\<newline>''
     @ lit ''        <path stroke-linecap="round" stroke-linejoin="round" stroke-width="2" d="M9 12l2 2 4-4m6 2a9 9 0 11-18 0 9 9 0 0118 0z" />\<newline>''
     @ lit ''      </svg>\<newline>      Verification Result\<newline>    </div>\<newline>''
     @ lit ''    <div style="white-space: pre-wrap; line-height: 1.6;">''\<close>

definition displayResult :: "jsstring \<Rightarrow> page \<Rightarrow> page" where
  "displayResult analysis w =
     w\<lparr>resultBox_className := lit ''result-box show '' @ resultType analysis,
       resultContent_innerHTML := result_header @ analysis @ lit ''</div>\<newline>  ''\<rparr>"

section \<open>Fetching a URL\<close>

text \<open>\<open>validateUrl\<close>: \<open>new URL(urlString)\<close> throws on a string that does not parse as an
  absolute URL, and the \<open>catch\<close> turns that into \<open>false\<close>.\<close>

definition validateUrl :: "env \<Rightarrow> jsstring \<Rightarrow> bool" where
  "validateUrl e urlString =
     (case URL_protocol e urlString of
        Some protocol \<Rightarrow> protocol = lit ''http:'' \<or> protocol = lit ''https:''
      | None \<Rightarrow> False)"

definition fetchUrlContent :: "env \<Rightarrow> jsstring \<Rightarrow> page \<Rightarrow> (error + source) \<times> page" where
  "fetchUrlContent e u w =
     (if \<not> validateUrl e u then (Inl InvalidUrl, w)
      else
        let w1 = showStatus (lit ''Fetching content from URL...'') (lit ''loading'') w;
            w2 = w1\<lparr>netLog := netLog w1 @ [HttpGet u]\<rparr>
        in case fetch_get e u of
             Inl err \<Rightarrow> (Inl err, w2)
           | Inr r \<Rightarrow>
               if \<not> ok r then (Inl (FetchFailed (status r) (statusText r)), w2)
               else
                 (case text_body r of
                    Inl err \<Rightarrow> (Inl err, w2)
                  | Inr htmlText \<Rightarrow>
                      let extractedContent =
                            (case readability_parse e htmlText of
                               Inr (Some article) \<Rightarrow> article
                             | Inr None \<Rightarrow> body_innerText e htmlText
                             | Inl err \<Rightarrow> body_innerText e htmlText);
                          ttl = (if doc_title e htmlText \<noteq> [] then doc_title e htmlText
                                 else lit ''Untitled'')
                      in (Inr (UrlSource u extractedContent ttl (toISOString e (clock w2))),
                          w2\<lparr>clock := Suc (clock w2)\<rparr>)))"

section \<open>Verification\<close>

definition system_prompt :: jsstring where
  \<open>system_prompt =
     lit ''You are a professional fact-checker. You will be given a CLAIM and SOURCE TEXTS from various documents and websites.\<newline>\<newline>''
     @ lit ''Your job is to:\<newline>''
     @ lit ''1. Carefully analyze whether the SOURCE TEXTS support, contradict, or are insufficient to verify the CLAIM\<newline>''
     @ lit ''2. Provide a clear verdict: "Supported", "Contradicted", "Partially Supported", or "Insufficient Evidence"\<newline>''
     @ lit ''3. Explain your reasoning in 1-2 sentence, citing specific information from the sources\<newline>''
     @ lit ''4. Be precise - the claim must be accurately reflected in the sources, not just topically related\<newline>\<newline>''
     @ lit ''Format your response as:\<newline>[Your verdict]\<newline>Explanation: [Your detailed explanation]''\<close>

text \<open>The evidence string: the contents joined with the separator, cut at 100000 code
  units.\<close>

definition combinedSourceText :: "source list \<Rightarrow> jsstring" where
  "combinedSourceText sources =
     substring0 100000
       (join (lit ''\<newline>\<newline>=== NEXT SOURCE ===\<newline>\<newline>'') (map content sources))"

definition judge_request_of :: "env \<Rightarrow> jsstring \<Rightarrow> source list \<Rightarrow> judge_request" where
  "judge_request_of e claim sources =
     \<lparr>authorization = lit ''Bearer '' @ OPENAI_API_KEY e,
      model = lit ''gpt-4'',
      system_content = system_prompt,
      user_content =
        lit ''CLAIM: '' @ claim @ lit ''\<newline>\<newline>SOURCE TEXTS:\<newline>'' @ combinedSourceText sources,
      temperature = lit ''0.3'',
      max_tokens = 500\<rparr>"

definition judge_ok :: "judge_response \<Rightarrow> bool" where
  "judge_ok r = (200 \<le> judge_status r \<and> judge_status r \<le> 299)"

text \<open>The error of a judge response that is not ok: the provider's message when it is a
  non-empty string, else the status.\<close>

definition JudgeRequestFailed :: "judge_response \<Rightarrow> error" where
  "JudgeRequestFailed r =
     Error (case error_message r of
              Some m \<Rightarrow> if m \<noteq> [] then m
                        else lit ''API request failed: '' @ decimal (judge_status r)
            | None \<Rightarrow> lit ''API request failed: '' @ decimal (judge_status r))"

definition verifyClaimWithAI ::
  "env \<Rightarrow> jsstring \<Rightarrow> source list \<Rightarrow> page \<Rightarrow> (error + jsstring) \<times> page" where
  "verifyClaimWithAI e claim sources w =
     (if claim = [] \<or> length (trim claim) = 0 then (Inl EmptyClaim, w)
      else if length sources = 0 then (Inl NoSources, w)
      else
        let w1 = showStatus (lit ''Analyzing claim against sources...'') (lit ''loading'') w;
            req = judge_request_of e claim sources;
            w2 = w1\<lparr>netLog := netLog w1 @ [JudgePost req]\<rparr>
        in case fetch_judge e req of
             Inl err \<Rightarrow> (Inl err, w2)
           | Inr r \<Rightarrow>
               if \<not> judge_ok r then (Inl (JudgeRequestFailed r), w2)
               else (case choice_content r of
                       Inl err \<Rightarrow> (Inl err, w2)
                     | Inr c \<Rightarrow> (Inr c, w2)))"

section \<open>The source store\<close>

definition updateSourceContents :: "page \<Rightarrow> page" where
  "updateSourceContents w = w\<lparr>sourceContents := uploadedFiles w @ urlSources w\<rparr>"

text \<open>
  \<open>removeSource(index, type)\<close>, for the arguments its two callers pass: the index is an
  integer or \<open>NaN\<close>, the type a string or \<open>undefined\<close> (\<open>None\<close>). The \<open>findIndex\<close> of the
  file branch computes a value nothing reads. The rendering of the list that follows writes
  only the list's markup.
\<close>

definition removeSource :: "jsnumber \<Rightarrow> jsstring option \<Rightarrow> page \<Rightarrow> page" where
  "removeSource index type w =
     (if type = Some (lit ''file'')
      then updateSourceContents (w\<lparr>uploadedFiles := splice_at index (uploadedFiles w)\<rparr>)
      else
        let urlIndex = number_minus index (int (length (uploadedFiles w)))
        in updateSourceContents (w\<lparr>urlSources := splice_at urlIndex (urlSources w)\<rparr>))"

text \<open>
  A remove button as \<open>updateFileList\<close> renders it: the arguments written into its inline
  \<open>onclick\<close>, and the two entries of its \<open>dataset\<close> the click listener reads
  (\<open>None\<close> is \<open>undefined\<close>: the element has no such \<open>data-\<close> attribute).
\<close>

record remove_button =
  onclick_index :: nat
  onclick_type :: jsstring
  dataset_index :: "jsstring option"
  dataset_type :: "jsstring option"

text \<open>
  The remove buttons \<open>updateFileList\<close> writes: one per source of the combined list, files
  first, each with \<open>onclick="removeSource(index, 'sourceType')"\<close> and no \<open>data-\<close>
  attribute.
\<close>

definition updateFileList :: "page \<Rightarrow> remove_button list" where
  "updateFileList w =
     (let allSources = map (\<lambda>f. lit ''file'') (uploadedFiles w)
                       @ map (\<lambda>u. lit ''url'') (urlSources w)
      in map (\<lambda>(index, sourceType).
                \<lparr>onclick_index = index, onclick_type = sourceType,
                 dataset_index = None, dataset_type = None\<rparr>)
           (enumerate 0 allSources))"

text \<open>The inline handler of a remove button.\<close>

definition file_remove_onclick :: "remove_button \<Rightarrow> page \<Rightarrow> page" where
  "file_remove_onclick b w =
     removeSource (JSInt (int (onclick_index b))) (Some (onclick_type b)) w"

text \<open>
  The click listener on the list. Its argument is the remove button the click landed in
  (\<open>e.target.closest('.file-remove')\<close>), \<open>None\<close> when there is none.
\<close>

definition fileList_click :: "remove_button option \<Rightarrow> page \<Rightarrow> page" where
  "fileList_click removeBtn w =
     (case removeBtn of
        None \<Rightarrow> w
      | Some b \<Rightarrow>
          let index = parseInt (dataset_index b);
              type = dataset_type b
          in removeSource index type w)"

section \<open>Event handlers\<close>

text \<open>The click on the fetch button.\<close>

definition fetchUrlBtn_click :: "env \<Rightarrow> page \<Rightarrow> page" where
  "fetchUrlBtn_click e w =
     (let u = trim (sourceUrl w)
      in if u = [] then showStatus (lit ''Please enter a URL'') (lit ''error'') w
         else
           (case fetchUrlContent e u w of
              (Inr urlContent, w1) \<Rightarrow>
                showStatus (lit ''URL content fetched successfully!'') (lit ''valid'')
                  ((updateSourceContents (w1\<lparr>urlSources := urlSources w1 @ [urlContent]\<rparr>))
                     \<lparr>sourceUrl := []\<rparr>)
            | (Inl err, w1) \<Rightarrow> showStatus (lit ''Error: '' @ message err) (lit ''error'') w1))"

text \<open>The click on the verify button: verification reads \<open>appState.sourceContents\<close>.\<close>

definition verifyBtn_click :: "env \<Rightarrow> page \<Rightarrow> page" where
  "verifyBtn_click e w =
     (let claim = trim (claimBox w)
      in case verifyClaimWithAI e claim (sourceContents w) w of
           (Inr analysis, w1) \<Rightarrow> displayResult analysis w1
         | (Inl err, w1) \<Rightarrow> showStatus (lit ''Error: '' @ message err) (lit ''error'') w1)"

text \<open>
  The loop of \<open>handleFiles\<close>: one file after the other is processed and pushed; the first
  error leaves the loop with the page as it is at that moment.
\<close>

fun processFiles :: "env \<Rightarrow> jsfile list \<Rightarrow> page \<Rightarrow> error option \<times> page" where
  "processFiles e [] w = (None, w)"
| "processFiles e (f # fs) w =
     (case processFile e f w of
        (Inl err, w1) \<Rightarrow> (Some err, w1)
      | (Inr processedFile, w1) \<Rightarrow>
          processFiles e fs (w1\<lparr>uploadedFiles := uploadedFiles w1 @ [processedFile]\<rparr>))"

definition handleFiles :: "env \<Rightarrow> jsfile list \<Rightarrow> page \<Rightarrow> page" where
  "handleFiles e fileArray w =
     (if length fileArray = 0 then w
      else
        let w1 = showStatus (lit ''Processing '' @ decimal (length fileArray) @ lit '' file(s)...'')
                   (lit ''loading'') w
        in case processFiles e fileArray w1 of
             (None, w2) \<Rightarrow>
               showStatus
                 (lit ''Successfully processed '' @ decimal (length fileArray) @ lit '' file(s)!'')
                 (lit ''valid'') (updateSourceContents w2)
           | (Some err, w2) \<Rightarrow> showStatus (lit ''Error: '' @ message err) (lit ''error'') w2)"

section \<open>Sample inputs\<close>

text \<open>
  A platform with no extraction library loaded, a reader that fails on one file name, a
  server that answers every request with 404 and a judge that answers \<open>Supported\<close>; and
  a few pages and sources. The properties below are instantiated at these.
\<close>

definition sample_env :: env where
  "sample_env =
     \<lparr>toLowerCase = map asciiLower,
      pdfjsLib = None,
      mammoth = None,
      Tesseract = None,
      readAsText =
        (\<lambda>f. if file_name f = lit ''gone.pdf'' then None else Some (lit ''The sky is blue.'')),
      URL_protocol =
        (\<lambda>s. if startsWith s (lit ''https://'') then Some (lit ''https:'')
             else if startsWith s (lit ''http://'') then Some (lit ''http:'')
             else if startsWith s (lit ''ftp://'') then Some (lit ''ftp:'')
             else None),
      fetch_get = (\<lambda>u. Inr \<lparr>status = 404, statusText = lit ''Not Found'', text_body = Inr []\<rparr>),
      readability_parse = (\<lambda>h. Inr None),
      body_innerText = (\<lambda>h. h),
      doc_title = (\<lambda>h. []),
      fetch_judge =
        (\<lambda>r. Inr \<lparr>judge_status = 200, error_message = None,
                   choice_content = Inr (lit ''Supported'')\<rparr>),
      toISOString = decimal,
      OPENAI_API_KEY = []\<rparr>"

definition empty_page :: page where
  "empty_page =
     \<lparr>uploadedFiles = [], urlSources = [], pendingClaim = None, sourceContents = [],
      claimBox = [], sourceUrl = [], resultBox_className = [], resultContent_innerHTML = [],
      netLog = [], clock = 0\<rparr>"

definition long_source :: source where
  "long_source =
     UrlSource (lit ''https://example.org/'') (replicate 100001 0x61) (lit ''Untitled'') []"

definition sky_source :: source where
  "sky_source =
     FileSource (lit ''sky.txt'') (lit ''text/plain'') 16 (lit ''The sky is blue.'') []"

definition two_two_page :: page where
  "two_two_page =
     empty_page
       \<lparr>uploadedFiles :=
          [sky_source, FileSource (lit ''b.txt'') (lit ''text/plain'') 1 (lit ''b'') []],
        urlSources := [long_source, UrlSource (lit ''http://u/'') (lit ''u'') (lit ''U'') []],
        sourceContents :=
          [sky_source, FileSource (lit ''b.txt'') (lit ''text/plain'') 1 (lit ''b'') [],
           long_source, UrlSource (lit ''http://u/'') (lit ''u'') (lit ''U'') []]\<rparr>"

definition blank_ocr_env :: env where
  "blank_ocr_env = sample_env\<lparr>Tesseract := Some (\<lambda>f. Inr (lit '' \<newline>''))\<rparr>"

definition photo_file :: jsfile where
  "photo_file = \<lparr>file_name = lit ''photo.png'', file_type = lit ''image/png'', file_size = 2048\<rparr>"

definition missing_url_page :: page where
  "missing_url_page = two_two_page\<lparr>sourceUrl := lit '' https://example.org/missing ''\<rparr>"

definition sky_file :: jsfile where
  "sky_file = \<lparr>file_name = lit ''sky.txt'', file_type = lit ''text/plain'', file_size = 16\<rparr>"

definition big_file :: jsfile where
  "big_file =
     \<lparr>file_name = lit ''big.pdf'', file_type = lit ''application/pdf'', file_size = 10485761\<rparr>"



section \<open>Properties\<close>

subsection \<open>Strings and arrays\<close>

lemma startsWith_prefix: "startsWith s p \<longleftrightarrow> prefix p s"
  by (auto simp: startsWith_def prefix_def) (metis append_eq_conv_conj)

lemma includes_js_sublist: "includes_js s p \<longleftrightarrow> sublist p s"
  by (induction s) (auto simp: startsWith_prefix sublist_Cons_right)

lemma drop_one_subseq: "subseq (take n xs @ drop (Suc n) xs) xs"
proof -
  have "subseq (drop (Suc n) xs) (drop n xs)"
    by (induction xs arbitrary: n) (auto simp: drop_Cons split: nat.splits)
  then have "subseq (take n xs @ drop (Suc n) xs) (take n xs @ drop n xs)"
    by (intro list_emb_append_mono) simp_all
  then show ?thesis by simp
qed

lemma splice_at_subseq: "subseq (splice_at j xs) xs"
  by (simp add: splice_at_def Let_def drop_one_subseq)

lemma splice_at_length: "length xs \<le> Suc (length (splice_at j xs))"
  by (auto simp: splice_at_def Let_def)

lemma splice_at_nat: "splice_at (JSInt (int i)) xs = take i xs @ drop (Suc i) xs"
  by (auto simp: splice_at_def Let_def min_def)

lemma splice_at_beyond: "int (length xs) \<le> j \<Longrightarrow> splice_at (JSInt j) xs = xs"
  by (auto simp: splice_at_def Let_def min_def)

lemma splice_at_NaN: "splice_at JSNaN xs = drop 1 xs"
  by (simp add: splice_at_def Let_def)

lemma parseInt_undefined: "parseInt None = JSNaN"
  by (simp add: parseInt_def Let_def lit_def isWhiteSpace_def isRadixDigit_def digitValue_def)

subsection \<open>Preconditions of verification\<close>

text \<open>
  C1. A claim that is empty after trimming, with a non-empty source list, makes
  \<open>verifyClaimWithAI\<close> throw the empty-claim error; a non-empty claim with an empty source
  list makes it throw the no-sources error. In both cases the page comes back as it was:
  nothing was appended to the log of network requests, so no request was issued.
\<close>

theorem verify_preconditions:
  "(trim claim = [] \<and> sources \<noteq> [] \<longrightarrow>
      verifyClaimWithAI e claim sources w = (Inl EmptyClaim, w)
      \<and> netLog (snd (verifyClaimWithAI e claim sources w)) = netLog w)
   \<and> (trim claim \<noteq> [] \<and> sources = [] \<longrightarrow>
      verifyClaimWithAI e claim sources w = (Inl NoSources, w)
      \<and> netLog (snd (verifyClaimWithAI e claim sources w)) = netLog w)"
  by (auto simp: verifyClaimWithAI_def trim_def)

theorem verify_preconditions_witness:
  "verifyClaimWithAI sample_env (lit ''  '') [sky_source] empty_page
     = (Inl EmptyClaim, empty_page)
   \<and> verifyClaimWithAI sample_env (lit ''claim'') [] empty_page = (Inl NoSources, empty_page)"
  using verify_preconditions [of "lit ''  ''" "[sky_source]" sample_env empty_page]
    verify_preconditions [of "lit ''claim''" "[]" sample_env empty_page]
  by (simp add: trim_def lit_def isWhiteSpace_def)

subsection \<open>The evidence string\<close>



subsection \<open>Removal by combined index\<close>

text \<open>
  What \<open>removeSource\<close> does when it is called with an integer index and the kind of that
  row, as the inline handler of a freshly rendered button calls it. In a store of \<open>f\<close> file
  sources and \<open>u\<close> url sources it removes, for \<open>i < f\<close> and the kind \<open>file\<close>, exactly the
  \<open>i\<close>-th file source, and, for \<open>f \<le> i < f + u\<close> and another kind, exactly the
  \<open>(i - f)\<close>-th url source; the other sub-collection is left as it is. An integer index of
  \<open>f + u\<close> or more removes nothing. For every index and every kind the combined view is
  the file sources followed by the url sources, each sub-collection is a subsequence of what
  it was, and at most one source has gone.
\<close>

lemma removeSource_matching_kind:
  "(i < length (uploadedFiles w) \<longrightarrow>
      uploadedFiles (removeSource (JSInt (int i)) (Some (lit ''file'')) w)
        = take i (uploadedFiles w) @ drop (Suc i) (uploadedFiles w)
      \<and> urlSources (removeSource (JSInt (int i)) (Some (lit ''file'')) w) = urlSources w)
   \<and> (length (uploadedFiles w) \<le> i \<and> i < length (uploadedFiles w) + length (urlSources w)
        \<and> t \<noteq> Some (lit ''file'') \<longrightarrow>
      urlSources (removeSource (JSInt (int i)) t w)
        = take (i - length (uploadedFiles w)) (urlSources w)
          @ drop (Suc (i - length (uploadedFiles w))) (urlSources w)
      \<and> uploadedFiles (removeSource (JSInt (int i)) t w) = uploadedFiles w)
   \<and> (int (length (uploadedFiles w) + length (urlSources w)) \<le> j \<longrightarrow>
      uploadedFiles (removeSource (JSInt j) t w) = uploadedFiles w
      \<and> urlSources (removeSource (JSInt j) t w) = urlSources w)
   \<and> sourceContents (removeSource n t w)
       = uploadedFiles (removeSource n t w) @ urlSources (removeSource n t w)
   \<and> subseq (uploadedFiles (removeSource n t w)) (uploadedFiles w)
   \<and> subseq (urlSources (removeSource n t w)) (urlSources w)
   \<and> length (uploadedFiles w) + length (urlSources w)
       \<le> Suc (length (uploadedFiles (removeSource n t w))
               + length (urlSources (removeSource n t w)))"
proof (intro conjI impI)
  assume "i < length (uploadedFiles w)"
  show "uploadedFiles (removeSource (JSInt (int i)) (Some (lit ''file'')) w)
        = take i (uploadedFiles w) @ drop (Suc i) (uploadedFiles w)"
    by (simp add: removeSource_def updateSourceContents_def splice_at_nat)
  show "urlSources (removeSource (JSInt (int i)) (Some (lit ''file'')) w) = urlSources w"
    by (simp add: removeSource_def updateSourceContents_def)
next
  assume a: "length (uploadedFiles w) \<le> i
     \<and> i < length (uploadedFiles w) + length (urlSources w) \<and> t \<noteq> Some (lit ''file'')"
  then obtain k where k: "i = length (uploadedFiles w) + k"
    using le_Suc_ex by blast
  have "splice_at (JSInt (int i - int (length (uploadedFiles w)))) (urlSources w)
        = take k (urlSources w) @ drop (Suc k) (urlSources w)"
    using splice_at_nat [of k "urlSources w"] by (simp add: k)
  with a k show "urlSources (removeSource (JSInt (int i)) t w)
        = take (i - length (uploadedFiles w)) (urlSources w)
          @ drop (Suc (i - length (uploadedFiles w))) (urlSources w)"
    by (simp add: removeSource_def updateSourceContents_def Let_def)
  from a show "uploadedFiles (removeSource (JSInt (int i)) t w) = uploadedFiles w"
    by (simp add: removeSource_def updateSourceContents_def Let_def)
next
  assume "int (length (uploadedFiles w) + length (urlSources w)) \<le> j"
  then have b: "int (length (uploadedFiles w)) \<le> j"
    and c: "int (length (urlSources w)) \<le> j - int (length (uploadedFiles w))"
    by simp_all
  from b c show "uploadedFiles (removeSource (JSInt j) t w) = uploadedFiles w"
    by (simp add: removeSource_def updateSourceContents_def Let_def splice_at_beyond)
  from b c show "urlSources (removeSource (JSInt j) t w) = urlSources w"
    by (simp add: removeSource_def updateSourceContents_def Let_def splice_at_beyond)
next
  show "sourceContents (removeSource n t w)
       = uploadedFiles (removeSource n t w) @ urlSources (removeSource n t w)"
    by (simp add: removeSource_def updateSourceContents_def Let_def)
  show "subseq (uploadedFiles (removeSource n t w)) (uploadedFiles w)"
    by (simp add: removeSource_def updateSourceContents_def Let_def splice_at_subseq)
  show "subseq (urlSources (removeSource n t w)) (urlSources w)"
    by (simp add: removeSource_def updateSourceContents_def Let_def splice_at_subseq)
  show "length (uploadedFiles w) + length (urlSources w)
       \<le> Suc (length (uploadedFiles (removeSource n t w))
               + length (urlSources (removeSource n t w)))"
    using splice_at_length [of "uploadedFiles w" n]
      splice_at_length [of "urlSources w" "number_minus n (int (length (uploadedFiles w)))"]
    by (simp add: removeSource_def updateSourceContents_def Let_def)
qed

text \<open>
  The click listener reads \<open>dataset.index\<close> and \<open>dataset.type\<close>, which no rendered button
  carries. Whatever button of whatever rendering the click landed in, the listener calls
  \<open>removeSource(NaN, undefined)\<close>: the file sources stay and the first url source goes.
\<close>

lemma updateFileList_dataset:
  "b \<in> set (updateFileList w) \<Longrightarrow> dataset_index b = None \<and> dataset_type b = None"
  by (auto simp: updateFileList_def Let_def)

lemma fileList_click_rendered:
  assumes "b \<in> set (updateFileList w0)"
  shows "fileList_click (Some b) w = removeSource JSNaN None w"
    and "uploadedFiles (fileList_click (Some b) w) = uploadedFiles w"
    and "urlSources (fileList_click (Some b) w) = drop 1 (urlSources w)"
  using updateFileList_dataset [OF assms]
  by (simp_all add: fileList_click_def Let_def parseInt_undefined removeSource_def
      updateSourceContents_def splice_at_NaN)

text \<open>
  C3 does not hold for a click on a remove button. The store holds two file sources and
  two url sources and the list is freshly rendered; the click lands in the button of row 0,
  a file row, whose inline handler would remove file source 0. The click listener leaves
  both file sources in place and removes url source 0, where removing combined index 0
  should remove the first file source and leave the url sources untouched.
\<close>

theorem remove_click_deletes_first_url:
  "length (updateFileList two_two_page) = 4
   \<and> onclick_index (updateFileList two_two_page ! 0) = 0
   \<and> onclick_type (updateFileList two_two_page ! 0) = lit ''file''
   \<and> dataset_index (updateFileList two_two_page ! 0) = None
   \<and> dataset_type (updateFileList two_two_page ! 0) = None
   \<and> parseInt (dataset_index (updateFileList two_two_page ! 0)) = JSNaN
   \<and> uploadedFiles (fileList_click (Some (updateFileList two_two_page ! 0)) two_two_page)
       = [sky_source, FileSource (lit ''b.txt'') (lit ''text/plain'') 1 (lit ''b'') []]
   \<and> urlSources (fileList_click (Some (updateFileList two_two_page ! 0)) two_two_page)
       = [UrlSource (lit ''http://u/'') (lit ''u'') (lit ''U'') []]
   \<and> urlSources two_two_page
       = [long_source, UrlSource (lit ''http://u/'') (lit ''u'') (lit ''U'') []]
   \<and> uploadedFiles (file_remove_onclick (updateFileList two_two_page ! 0) two_two_page)
       = [FileSource (lit ''b.txt'') (lit ''text/plain'') 1 (lit ''b'') []]
   \<and> urlSources (file_remove_onclick (updateFileList two_two_page ! 0) two_two_page)
       = urlSources two_two_page"
  by (simp add: updateFileList_def two_two_page_def empty_page_def fileList_click_def
      file_remove_onclick_def removeSource_def updateSourceContents_def splice_at_def
      parseInt_undefined Let_def enumerate_eq_zip upt_rec)

subsection \<open>Classifying the judge's reply\<close>

text \<open>
  C5. The category \<open>displayResult\<close> shows is found by substring matching on the judge's
  reply: a reply containing \<open>Contradicted\<close> or \<open>False\<close> gets the category of
  contradiction (the box class \<open>invalid\<close>); otherwise a reply containing \<open>Insufficient\<close>
  or \<open>Partially\<close> gets that category (the box class \<open>error\<close>); every other reply gets
  the category of support (the box class \<open>valid\<close>). Whatever the category, the markup
  written to the result box holds the reply as it came, between a fixed header and a fixed
  closing.
\<close>

theorem verdict_classification:
  "(sublist (lit ''Contradicted'') analysis \<or> sublist (lit ''False'') analysis \<longrightarrow>
      resultType analysis = lit ''invalid'')
   \<and> (\<not> sublist (lit ''Contradicted'') analysis \<and> \<not> sublist (lit ''False'') analysis
        \<and> (sublist (lit ''Insufficient'') analysis \<or> sublist (lit ''Partially'') analysis) \<longrightarrow>
      resultType analysis = lit ''error'')
   \<and> (\<not> sublist (lit ''Contradicted'') analysis \<and> \<not> sublist (lit ''False'') analysis
        \<and> \<not> sublist (lit ''Insufficient'') analysis \<and> \<not> sublist (lit ''Partially'') analysis \<longrightarrow>
      resultType analysis = lit ''valid'')
   \<and> resultBox_className (displayResult analysis w) = lit ''result-box show '' @ resultType analysis
   \<and> resultContent_innerHTML (displayResult analysis w)
       = result_header @ analysis @ lit ''</div>\<newline>  ''"
  by (simp add: resultType_def displayResult_def includes_js_sublist)

theorem verdict_classification_witness:
  "resultType (lit ''False'') = lit ''invalid''
   \<and> resultType (lit ''Partially Supported'') = lit ''error''
   \<and> resultType (lit ''Supported'') = lit ''valid''"
  using verdict_classification [of "lit ''False''" empty_page]
    verdict_classification [of "lit ''Partially Supported''" empty_page]
    verdict_classification [of "lit ''Supported''" empty_page]
  by (simp add: includes_js_sublist [symmetric] lit_def startsWith_def)

subsection \<open>Text of an image\<close>

text \<open>
  C9. \<open>extractTextFromImage\<close> returns \<open>[Image: <name>]\<close> followed by a note that the OCR
  library is not loaded when the library is absent, and \<open>[Image: <name>]\<close> followed by a
  note that no text was detected when the recognition runs and its text is empty after
  trimming. It never returns the empty string.
\<close>

theorem image_extraction_sentinels:
  "(Tesseract e = None \<longrightarrow>
      extractTextFromImage e f
        = lit ''[Image: '' @ file_name f
          @ lit '']\<newline>OCR library not loaded. Please install Tesseract.js to extract text from images.'')
   \<and> (Tesseract e = Some recognize \<and> recognize f = Inr t \<and> trim t = [] \<longrightarrow>
      extractTextFromImage e f
        = lit ''[Image: '' @ file_name f @ lit '']\<newline>No text detected in image.'')
   \<and> extractTextFromImage e f \<noteq> []"
  by (simp add: extractTextFromImage_def lit_def split: option.splits sum.splits)

theorem image_extraction_sentinels_witness:
  "extractTextFromImage sample_env photo_file
     = lit ''[Image: photo.png]\<newline>OCR library not loaded. Please install Tesseract.js to extract text from images.''
   \<and> extractTextFromImage blank_ocr_env photo_file
     = lit ''[Image: photo.png]\<newline>No text detected in image.''"
  using image_extraction_sentinels [of sample_env photo_file "\<lambda>f. Inr (lit '' \<newline>'')" "lit '' \<newline>''"]
    image_extraction_sentinels [of blank_ocr_env photo_file "\<lambda>f. Inr (lit '' \<newline>'')" "lit '' \<newline>''"]
  by (simp add: sample_env_def blank_ocr_env_def photo_file_def trim_def lit_def isWhiteSpace_def)

subsection \<open>Admissible URLs\<close>

text \<open>
  C7. \<open>validateUrl\<close> is true exactly when the string parses as an absolute URL and the
  protocol of the parsed URL is \<open>http:\<close> or \<open>https:\<close>; a string the parser rejects gives
  false, and the function always returns a boolean. On every string where it is false,
  \<open>fetchUrlContent\<close> throws the invalid-URL error with the page as it was: no request is
  appended to the log of network requests.
\<close>

theorem validateUrl_gate:
  "(validateUrl e s \<longleftrightarrow>
      (\<exists>p. URL_protocol e s = Some p \<and> (p = lit ''http:'' \<or> p = lit ''https:'')))
   \<and> (URL_protocol e s = None \<longrightarrow> \<not> validateUrl e s)
   \<and> (\<not> validateUrl e s \<longrightarrow>
        fetchUrlContent e s w = (Inl InvalidUrl, w)
        \<and> netLog (snd (fetchUrlContent e s w)) = netLog w)"
  by (auto simp: validateUrl_def fetchUrlContent_def split: option.splits)

theorem validateUrl_gate_witness:
  "validateUrl sample_env (lit ''https://example.org/'')
   \<and> \<not> validateUrl sample_env (lit ''ftp://example.org/'')
   \<and> \<not> validateUrl sample_env (lit ''not a url'')
   \<and> fetchUrlContent sample_env (lit ''ftp://example.org/'') empty_page
       = (Inl InvalidUrl, empty_page)
   \<and> fetchUrlContent sample_env (lit ''not a url'') empty_page = (Inl InvalidUrl, empty_page)"
  using validateUrl_gate [of sample_env "lit ''https://example.org/''" empty_page]
    validateUrl_gate [of sample_env "lit ''ftp://example.org/''" empty_page]
    validateUrl_gate [of sample_env "lit ''not a url''" empty_page]
  by (simp add: sample_env_def startsWith_def lit_def)

subsection \<open>A fetch answered outside 200 to 299\<close>

text \<open>
  C8. When the request for an admissible URL is answered with a status outside 200 to 299,
  \<open>fetchUrlContent\<close> throws an error whose message carries the status code and the status
  text, and the click on the fetch button that started it leaves the file sources, the url
  sources and the combined view as they were: no source is inserted.
\<close>

theorem fetch_non_2xx:
  "validateUrl e u \<and> fetch_get e u = Inr r \<and> (status r < 200 \<or> 299 < status r) \<longrightarrow>
     fst (fetchUrlContent e u w) = Inl (FetchFailed (status r) (statusText r))
     \<and> message (FetchFailed (status r) (statusText r))
         = lit ''Failed to fetch URL: '' @ decimal (status r) @ lit '' '' @ statusText r
     \<and> (trim (sourceUrl w) = u \<longrightarrow>
          uploadedFiles (fetchUrlBtn_click e w) = uploadedFiles w
          \<and> urlSources (fetchUrlBtn_click e w) = urlSources w
          \<and> sourceContents (fetchUrlBtn_click e w) = sourceContents w)"
proof (intro impI)
  assume a: "validateUrl e u \<and> fetch_get e u = Inr r \<and> (status r < 200 \<or> 299 < status r)"
  then have nok: "\<not> ok r" by (auto simp: ok_def)
  have 1: "fetchUrlContent e u w
      = (Inl (FetchFailed (status r) (statusText r)),
         (showStatus (lit ''Fetching content from URL...'') (lit ''loading'') w)
           \<lparr>netLog := netLog w @ [HttpGet u]\<rparr>)"
    using a nok by (simp add: fetchUrlContent_def Let_def showStatus_def)
  have 2: "trim (sourceUrl w) = u \<longrightarrow>
          uploadedFiles (fetchUrlBtn_click e w) = uploadedFiles w
          \<and> urlSources (fetchUrlBtn_click e w) = urlSources w
          \<and> sourceContents (fetchUrlBtn_click e w) = sourceContents w"
    by (simp add: fetchUrlBtn_click_def Let_def 1 showStatus_def)
  from 1 2 show "fst (fetchUrlContent e u w) = Inl (FetchFailed (status r) (statusText r))
     \<and> message (FetchFailed (status r) (statusText r))
         = lit ''Failed to fetch URL: '' @ decimal (status r) @ lit '' '' @ statusText r
     \<and> (trim (sourceUrl w) = u \<longrightarrow>
          uploadedFiles (fetchUrlBtn_click e w) = uploadedFiles w
          \<and> urlSources (fetchUrlBtn_click e w) = urlSources w
          \<and> sourceContents (fetchUrlBtn_click e w) = sourceContents w)"
    by (simp add: FetchFailed_def)
qed

theorem fetch_non_2xx_witness:
  "fst (fetchUrlContent sample_env (lit ''https://example.org/missing'') missing_url_page)
     = Inl (Error (lit ''Failed to fetch URL: 404 Not Found''))
   \<and> urlSources (fetchUrlBtn_click sample_env missing_url_page) = urlSources two_two_page
   \<and> uploadedFiles (fetchUrlBtn_click sample_env missing_url_page) = uploadedFiles two_two_page
   \<and> sourceContents (fetchUrlBtn_click sample_env missing_url_page)
       = sourceContents two_two_page"
  using fetch_non_2xx [of sample_env "lit ''https://example.org/missing''"
      "\<lparr>status = 404, statusText = lit ''Not Found'', text_body = Inr []\<rparr>" missing_url_page]
  by (simp add: sample_env_def validateUrl_def startsWith_def FetchFailed_def decimal.simps
        missing_url_page_def two_two_page_def empty_page_def trim_def isWhiteSpace_def lit_def)

subsection \<open>Files over the size limit\<close>







subsection \<open>Extraction and the raw read\<close>








subsection \<open>The combined view\<close>

text \<open>
  The combined view is recomputed by \<open>removeSource\<close>, by the click on the fetch button
  when the fetch succeeds (and left alone, with the sub-collections, when it fails), and by
  \<open>handleFiles\<close> when every file of the batch was processed.
\<close>

lemma fresh_view_removeSource:
  "sourceContents (removeSource j t w)
     = uploadedFiles (removeSource j t w) @ urlSources (removeSource j t w)"
  by (simp add: removeSource_def updateSourceContents_def Let_def)

lemma fresh_view_fetchUrlBtn_click:
  assumes inv: "sourceContents w = uploadedFiles w @ urlSources w"
  shows "sourceContents (fetchUrlBtn_click e w)
       = uploadedFiles (fetchUrlBtn_click e w) @ urlSources (fetchUrlBtn_click e w)"
proof (cases "fetchUrlContent e (trim (sourceUrl w)) w")
  case (Pair x w1)
  then have "uploadedFiles w1 = uploadedFiles w \<and> urlSources w1 = urlSources w
      \<and> sourceContents w1 = sourceContents w"
    by (auto simp: fetchUrlContent_def Let_def showStatus_def
        split: if_splits sum.splits option.splits)
  with Pair inv show ?thesis
    by (cases x)
      (simp_all add: fetchUrlBtn_click_def Let_def showStatus_def updateSourceContents_def)
qed

lemma fresh_view_handleFiles_success:
  assumes "fs \<noteq> []"
    and "fst (processFiles e fs
               (showStatus (lit ''Processing '' @ decimal (length fs) @ lit '' file(s)...'')
                  (lit ''loading'') w)) = None"
  shows "sourceContents (handleFiles e fs w)
       = uploadedFiles (handleFiles e fs w) @ urlSources (handleFiles e fs w)"
  using assms
  by (cases "processFiles e fs
               (showStatus (lit ''Processing '' @ decimal (length fs) @ lit '' file(s)...'')
                  (lit ''loading'') w)")
    (simp add: handleFiles_def showStatus_def updateSourceContents_def)

text \<open>
  C10 does not hold for a batch that stops at an error. On the empty store, the batch of a
  small text file followed by a file over the size limit pushes the text file, then throws;
  the \<open>catch\<close> does not recompute the combined view. The store then holds one file source
  while the combined view is still empty, and a click on the verify button reports that no
  source was added.
\<close>

theorem stale_view_after_failed_batch:
  "uploadedFiles (handleFiles sample_env [sky_file, big_file] empty_page)
     = [FileSource (lit ''sky.txt'') (lit ''text/plain'') 16 (lit ''The sky is blue.'') (lit ''0'')]
   \<and> urlSources (handleFiles sample_env [sky_file, big_file] empty_page) = []
   \<and> sourceContents (handleFiles sample_env [sky_file, big_file] empty_page) = []
   \<and> sourceContents (handleFiles sample_env [sky_file, big_file] empty_page)
       \<noteq> uploadedFiles (handleFiles sample_env [sky_file, big_file] empty_page)
         @ urlSources (handleFiles sample_env [sky_file, big_file] empty_page)
   \<and> resultContent_innerHTML
        (verifyBtn_click sample_env
           ((handleFiles sample_env [sky_file, big_file] empty_page)
              \<lparr>claimBox := lit ''The sky is blue''\<rparr>))
       = lit ''Error: Please add at least one source (file or URL) before verifying''"
  by (simp add: sample_env_def sky_file_def big_file_def empty_page_def validateFile_def
      MAX_FILE_SIZE_def ALLOWED_TYPES_def readFileAsText_def processFile_def
      handleFiles_def showStatus_def verifyBtn_click_def verifyClaimWithAI_def
      NoSources_def startsWith_def endsWith_def matches_doc_def asciiLower_def
      trim_def isWhiteSpace_def decimal.simps lit_def)

end
